theory Spec2Isabelle
  imports Main "HOL-Library.Word"
begin

section \<open>libutil (utils.h): allocation guard and levelled logger\<close>

text \<open>
  The header has three allocation helpers (\<open>_xmalloc\<close>, \<open>_xrealloc\<close>, the macro
  \<open>_xfree\<close>) and one logging routine (\<open>__output\<close>). Everything they do is an effect on
  the process: bytes appended to the two output streams, bytes consumed from standard
  input, blocks handed out or taken back by the platform allocator, and the way the call
  ends (return, \<open>exit\<close>, \<open>abort\<close>, or never). The model passes the state of the process
  explicitly and makes the way a call ends a value.
\<close>

subsection \<open>Process state\<close>

type_synonym addr = "64 word"
type_synonym size_t = "64 word"

abbreviation NULL :: addr where
  "NULL \<equiv> 0"

text \<open>
  \<open>stdin\<close> holds the bytes not yet read (end-of-stream follows the last one), \<open>stdout\<close>
  and \<open>stderr\<close> hold the bytes written so far, \<open>heap\<close> is the set of addresses of the
  blocks the allocator has handed out and not taken back.
\<close>

record world =
  stdin :: string
  stdout :: string
  stderr :: string
  heap :: "addr set"

text \<open>How a call ends: it returns a value, or the process ends in \<open>exit\<close> or \<open>abort\<close>.\<close>

datatype 'a outcome =
  Return 'a world
| Exit int world
| Abort world

subsection \<open>The platform's C library\<close>

text \<open>\<open>printf (s)\<close> and \<open>fprintf (stderr, s)\<close> with the text already formatted.\<close>

definition printf :: "string \<Rightarrow> world \<Rightarrow> world" where
  "printf s w = w\<lparr>stdout := stdout w @ s\<rparr>"

definition fprintf_stderr :: "string \<Rightarrow> world \<Rightarrow> world" where
  "fprintf_stderr s w = w\<lparr>stderr := stderr w @ s\<rparr>"

text \<open>The conversion \<open>%d\<close> of an \<open>int\<close>: decimal digits, a minus sign when negative.\<close>

definition digit_char :: "nat \<Rightarrow> char" where
  "digit_char d = ''0123456789'' ! d"

fun dec_nat :: "nat \<Rightarrow> string" where
  "dec_nat n =
     (if n < 10 then [digit_char n]
      else dec_nat (n div 10) @ [digit_char (n mod 10)])"

declare dec_nat.simps [simp del]

definition dec_int :: "int \<Rightarrow> string" where
  "dec_int i = (if i < 0 then CHR ''-'' # dec_nat (nat (- i)) else dec_nat (nat i))"

text \<open>
  \<open>getc (stdin)\<close>: the next byte as a value in \<open>0..255\<close>, or \<open>EOF\<close> when no byte is
  left; the stream stays at its end then.
\<close>

definition EOF :: int where
  "EOF = - 1"

definition getc :: "world \<Rightarrow> int \<times> world" where
  "getc w =
     (case stdin w of
        [] \<Rightarrow> (EOF, w)
      | c # cs \<Rightarrow> (of_char c, w\<lparr>stdin := cs\<rparr>))"

text \<open>
  \<open>free (p)\<close>: nothing happens for the null pointer, a live block is taken back, and any
  other argument is undefined behaviour (\<open>None\<close>).
\<close>

definition free :: "addr \<Rightarrow> world \<Rightarrow> world option" where
  "free p w =
     (if p = NULL then Some w
      else if p \<in> heap w then Some (w\<lparr>heap := heap w - {p}\<rparr>)
      else None)"

subsection \<open>Allocation guard\<close>

text \<open>
  \<open>malloc\<close> and \<open>realloc\<close> are parameters: any function from the request and the state
  of the process to the address returned and the new state.
\<close>

definition msg_alloc_failed :: string where
  "msg_alloc_failed = '' ** libutils: FATAL: memory allocation failed!''"

definition msg_realloc_failed :: string where
  "msg_realloc_failed = '' ** libutils: FATAL: memory reallocation failed!''"

definition xmalloc ::
  "(size_t \<Rightarrow> world \<Rightarrow> addr \<times> world) \<Rightarrow> size_t \<Rightarrow> world \<Rightarrow> addr outcome" where
  "xmalloc malloc sz w =
     (case malloc sz w of (ptr, w') \<Rightarrow>
        if ptr \<noteq> NULL then Return ptr w'
        else Abort (fprintf_stderr msg_alloc_failed w'))"

definition xrealloc ::
  "(addr \<Rightarrow> size_t \<Rightarrow> world \<Rightarrow> addr \<times> world) \<Rightarrow> addr \<Rightarrow> size_t \<Rightarrow> world \<Rightarrow> addr outcome" where
  "xrealloc realloc ptr sz w =
     (case realloc ptr sz w of (newBuf, w') \<Rightarrow>
        if newBuf \<noteq> NULL \<and> newBuf \<noteq> ptr then Return newBuf w'
        else Abort (fprintf_stderr msg_realloc_failed w'))"

text \<open>
  The macro \<open>_xfree (ptr)\<close> frees the block and assigns \<open>NULL\<close> to the caller's variable:
  the model returns the variable's new value with the new state.
\<close>

definition xfree :: "addr \<Rightarrow> world \<Rightarrow> (addr \<times> world) option" where
  "xfree ptr w = (case free ptr w of None \<Rightarrow> None | Some w' \<Rightarrow> Some (NULL, w'))"

subsection \<open>Levelled logger\<close>

datatype OutputType = Info | Warn_NoAck | Warn_Ack | Error

definition Head :: string where
  "Head = '' ** libutils:''"

abbreviation LF :: char where
  "LF \<equiv> CHR 0x0A"

abbreviation CR :: char where
  "CR \<equiv> CHR 0x0D"

text \<open>The text of \<open>"%s In %s (%s:%d) <LEVEL>: "\<close> for \<open>Head, func, file, line\<close>.\<close>

definition prefix_text :: "string \<Rightarrow> string \<Rightarrow> string \<Rightarrow> 32 word \<Rightarrow> string" where
  "prefix_text level func file line =
     Head @ '' In '' @ func @ '' ('' @ file @ '':'' @ dec_int (sint line) @ '') '' @ level @ '': ''"

text \<open>\<open>while (getc (stdin) != EOF) {}\<close>\<close>

function drain :: "world \<Rightarrow> world" where
  "drain w = (case getc w of (c, w') \<Rightarrow> if c \<noteq> EOF then drain w' else w')"
  by pat_completeness auto
termination
  by (relation "measure (\<lambda>w. length (stdin w))")
     (auto simp: getc_def split: list.splits)

declare drain.simps [simp del]

text \<open>
  One round of the confirmation loop: the prompt, one character read into the \<open>char\<close>
  variable \<open>yn\<close>, and the \<open>switch\<close>. The round either ends the call or asks for another
  round.
\<close>

datatype ctl = Repeat world | Finish "unit outcome"

definition msg_prompt :: string where
  "msg_prompt = '' -> Continue? [y/N]''"

definition msg_reprompt :: string where
  "msg_reprompt = ''    Please answer [y]es or [N]o.''"

definition ack_body :: "world \<Rightarrow> ctl" where
  "ack_body w =
     (let w1 = printf msg_prompt w;
          (c, w2) = getc w1;
          yn = (char_of c :: char)
      in if yn = CHR ''Y'' \<or> yn = CHR ''y'' then Finish (Return () (drain w2))
         else if yn = CHR ''N'' \<or> yn = CHR ''n'' \<or> yn = CR then Finish (Exit 255 w2)
         else Repeat (printf msg_reprompt w2))"

text \<open>\<open>while (1)\<close>: the value \<open>None\<close> is a loop that never ends.\<close>

partial_function (option) ack_loop :: "world \<Rightarrow> unit outcome option" where
  "ack_loop w = (case ack_body w of Repeat w' \<Rightarrow> ack_loop w' | Finish r \<Rightarrow> Some r)"

text \<open>
  \<open>__output\<close>. The conversion of \<open>fmt\<close> with the variadic arguments is the platform's
  (\<open>vprintf\<close>, \<open>vfprintf\<close>): \<open>vformat fmt args\<close> is the text it produces.
\<close>

definition output' ::
  "(string \<Rightarrow> 'a \<Rightarrow> string) \<Rightarrow> string \<Rightarrow> string \<Rightarrow> 32 word \<Rightarrow> OutputType \<Rightarrow> string \<Rightarrow> 'a
     \<Rightarrow> world \<Rightarrow> unit outcome option" where
  "output' vformat file func line outputType fmt args w =
     (case outputType of
        Info \<Rightarrow>
          (let w1 = printf (prefix_text ''INFO'' func file line) w;
               w2 = printf (vformat fmt args) w1;
               w3 = printf [LF] w2
           in Some (Return () w3))
      | Warn_NoAck \<Rightarrow>
          (let w1 = printf (prefix_text ''WARN'' func file line) w;
               w2 = printf (vformat fmt args) w1;
               w3 = printf [LF] w2
           in Some (Return () w3))
      | Warn_Ack \<Rightarrow>
          (let w1 = printf (prefix_text ''WARN'' func file line) w;
               w2 = printf (vformat fmt args) w1;
               w3 = printf [LF] w2
           in ack_loop w3)
      | Error \<Rightarrow>
          (let w1 = fprintf_stderr (prefix_text ''FAIL'' func file line) w;
               w2 = fprintf_stderr (vformat fmt args) w1;
               w3 = printf [LF] w2
           in Some (Abort w3)))"

section \<open>Properties\<close>

subsection \<open>Helper facts\<close>

lemma of_char_not_EOF: "(of_char c :: int) \<noteq> EOF"
proof -
  have "(of_char c :: int) = of_char c mod 256"
    by simp
  also have "\<dots> \<ge> 0"
    by (rule pos_mod_sign) simp
  finally show ?thesis
    by (simp add: EOF_def)
qed

text \<open>The cleaning loop stops exactly when the input is used up.\<close>

lemma drain_empties: "drain w = w\<lparr>stdin := []\<rparr>"
proof (induction w rule: drain.induct)
  case (1 w)
  show ?case
  proof (cases "stdin w")
    case Nil
    then show ?thesis
      by (subst drain.simps) (simp add: getc_def)
  next
    case (Cons c cs)
    have "drain w = drain (w\<lparr>stdin := cs\<rparr>)"
      by (subst drain.simps) (simp add: getc_def Cons of_char_not_EOF)
    also have "\<dots> = (w\<lparr>stdin := cs\<rparr>)\<lparr>stdin := []\<rparr>"
      using "1.IH" [of "of_char c" "w\<lparr>stdin := cs\<rparr>"]
      by (simp add: getc_def Cons of_char_not_EOF)
    finally show ?thesis by simp
  qed
qed

text \<open>One round of the loop, by what \<open>getc\<close> delivers.\<close>

lemma ack_body_eof:
  "stdin w = [] \<Longrightarrow>
   ack_body w = Repeat (w\<lparr>stdout := stdout w @ msg_prompt @ msg_reprompt\<rparr>)"
  by (simp add: ack_body_def getc_def printf_def EOF_def char_of_def)

lemma ack_body_byte:
  "stdin w = c # cs \<Longrightarrow>
   ack_body w =
     (if c = CHR ''Y'' \<or> c = CHR ''y''
        then Finish (Return () (w\<lparr>stdin := [], stdout := stdout w @ msg_prompt\<rparr>))
      else if c = CHR ''N'' \<or> c = CHR ''n'' \<or> c = CR
        then Finish (Exit 255 (w\<lparr>stdin := cs, stdout := stdout w @ msg_prompt\<rparr>))
      else Repeat (w\<lparr>stdin := cs, stdout := stdout w @ msg_prompt @ msg_reprompt\<rparr>))"
  by (simp add: ack_body_def getc_def printf_def Let_def drain_empties)

lemma ack_loop_accept:
  "stdin w = c # cs \<Longrightarrow> c = CHR ''Y'' \<or> c = CHR ''y'' \<Longrightarrow>
   ack_loop w = Some (Return () (w\<lparr>stdin := [], stdout := stdout w @ msg_prompt\<rparr>))"
  by (subst ack_loop.simps) (simp add: ack_body_byte)

lemma ack_loop_decline:
  "stdin w = c # cs \<Longrightarrow> c = CHR ''N'' \<or> c = CHR ''n'' \<or> c = CR \<Longrightarrow>
   ack_loop w = Some (Exit 255 (w\<lparr>stdin := cs, stdout := stdout w @ msg_prompt\<rparr>))"
  by (subst ack_loop.simps) (auto simp add: ack_body_byte)

lemma ack_loop_other:
  "stdin w = c # cs \<Longrightarrow> c \<notin> {CHR ''Y'', CHR ''y'', CHR ''N'', CHR ''n'', CR} \<Longrightarrow>
   ack_loop w = ack_loop (w\<lparr>stdin := cs, stdout := stdout w @ msg_prompt @ msg_reprompt\<rparr>)"
  by (subst ack_loop.simps) (simp add: ack_body_byte)

text \<open>
  A call of the loop that ends has read a byte: at the end of the input every round asks
  for another one.
\<close>

lemma ack_loop_reads:
  assumes "ack_loop w = Some r"
  shows "stdin w \<noteq> []"
proof (rule ack_loop.raw_induct [where P = "\<lambda>w r. stdin w \<noteq> []", OF _ assms])
  fix f :: "world \<Rightarrow> unit outcome option" and w r
  assume IH: "\<And>x y. f x = Some y \<Longrightarrow> stdin x \<noteq> []"
    and eq: "(case ack_body w of Repeat w' \<Rightarrow> f w' | Finish r \<Rightarrow> Some r) = Some r"
  show "stdin w \<noteq> []"
  proof
    assume e: "stdin w = []"
    from eq have "f (w\<lparr>stdout := stdout w @ msg_prompt @ msg_reprompt\<rparr>) = Some r"
      by (simp add: ack_body_eof [OF e])
    from IH [OF this] e show False by simp
  qed
qed

lemma ack_loop_eof: "stdin w = [] \<Longrightarrow> ack_loop w = None"
  using ack_loop_reads [of w] by (cases "ack_loop w") auto

lemma output_Warn_Ack:
  "output' vformat file func line Warn_Ack fmt args w =
   ack_loop (w\<lparr>stdout := stdout w @ prefix_text ''WARN'' func file line @ vformat fmt args @ [LF]\<rparr>)"
  by (simp add: output'_def printf_def)

lemma output_Error:
  "output' vformat file func line Error fmt args w =
   Some (Abort (w\<lparr>stdout := stdout w @ [LF],
                   stderr := stderr w @ prefix_text ''FAIL'' func file line @ vformat fmt args\<rparr>))"
  by (simp add: output'_def printf_def fprintf_stderr_def)

lemmas dec_eval = dec_int_def dec_nat.simps digit_char_def

lemmas text_eval = prefix_text_def Head_def msg_prompt_def msg_reprompt_def

subsection \<open>Allocation guard\<close>

text \<open>
  C6. \<open>_xmalloc (size)\<close> returns the allocator's address when it is not null, and a handle
  it returns is never null; when the allocator gives null, the call writes
  \<open>" ** libutils: FATAL: memory allocation failed!"\<close> (no newline) to the error stream and
  the process aborts, so the caller gets nothing back.
\<close>

theorem xmalloc_returns_or_aborts:
  assumes "malloc sz w = (q, w')"
  shows "xmalloc malloc sz w =
           (if q \<noteq> NULL then Return q w'
            else Abort (w'\<lparr>stderr := stderr w' @ '' ** libutils: FATAL: memory allocation failed!''\<rparr>))
         \<and> (case xmalloc malloc sz w of Return r v \<Rightarrow> r \<noteq> NULL | Exit n v \<Rightarrow> False | Abort v \<Rightarrow> q = NULL)"
  using assms by (simp add: xmalloc_def fprintf_stderr_def msg_alloc_failed_def)

theorem xmalloc_returns_or_aborts_witness:
  "(\<lambda>sz w. (NULL, w)) (16 :: size_t) \<lparr>stdin = [], stdout = [], stderr = [], heap = {}\<rparr>
     = (NULL, \<lparr>stdin = [], stdout = [], stderr = [], heap = {}\<rparr>)
   \<and> xmalloc (\<lambda>sz w. (NULL, w)) 16 \<lparr>stdin = [], stdout = [], stderr = [], heap = {}\<rparr>
     = Abort \<lparr>stdin = [], stdout = [],
              stderr = '' ** libutils: FATAL: memory allocation failed!'', heap = {}\<rparr>"
  using xmalloc_returns_or_aborts
    [of "\<lambda>sz w. (NULL, w)" 16 "\<lparr>stdin = [], stdout = [], stderr = [], heap = {}\<rparr>"
        NULL "\<lparr>stdin = [], stdout = [], stderr = [], heap = {}\<rparr>"]
  by simp

text \<open>
  C1. \<open>_xrealloc (p, size)\<close> returns exactly when the address \<open>realloc\<close> gives is neither
  null nor \<open>p\<close>, and then returns that address; otherwise (null, or \<open>p\<close> itself) it writes
  \<open>" ** libutils: FATAL: memory reallocation failed!"\<close> to the error stream and the process
  aborts.
\<close>

theorem xrealloc_returns_iff_moved:
  assumes "realloc p sz w = (q, w')"
  shows "xrealloc realloc p sz w =
           (if q \<noteq> NULL \<and> q \<noteq> p then Return q w'
            else Abort (w'\<lparr>stderr := stderr w' @ '' ** libutils: FATAL: memory reallocation failed!''\<rparr>))
         \<and> ((\<exists>r v. xrealloc realloc p sz w = Return r v) = (q \<noteq> NULL \<and> q \<noteq> p))"
  using assms by (simp add: xrealloc_def fprintf_stderr_def msg_realloc_failed_def)

theorem xrealloc_returns_iff_moved_witness:
  "(\<lambda>p sz w. (p, w)) (4096 :: addr) (8 :: size_t)
       \<lparr>stdin = [], stdout = [], stderr = [], heap = {4096}\<rparr>
     = (4096, \<lparr>stdin = [], stdout = [], stderr = [], heap = {4096}\<rparr>)
   \<and> xrealloc (\<lambda>p sz w. (p, w)) 4096 8 \<lparr>stdin = [], stdout = [], stderr = [], heap = {4096}\<rparr>
     = Abort \<lparr>stdin = [], stdout = [],
              stderr = '' ** libutils: FATAL: memory reallocation failed!'', heap = {4096}\<rparr>"
  using xrealloc_returns_iff_moved
    [of "\<lambda>p sz w. (p, w)" 4096 8 "\<lparr>stdin = [], stdout = [], stderr = [], heap = {4096}\<rparr>"
        4096 "\<lparr>stdin = [], stdout = [], stderr = [], heap = {4096}\<rparr>"]
  by simp

text \<open>
  C8. \<open>_xfree (p)\<close> on a variable holding a live handle gives the block back to the
  allocator (it is no longer live, every other block still is) and leaves \<open>NULL\<close> in the
  variable; on a variable holding \<open>NULL\<close> it changes nothing. Neither case ends the
  process.
\<close>

theorem xfree_releases_and_clears:
  assumes "p = NULL \<or> p \<in> heap w"
  shows "xfree p w = Some (NULL, if p = NULL then w else w\<lparr>heap := heap w - {p}\<rparr>)"
  using assms by (auto simp add: xfree_def free_def)

theorem xfree_releases_and_clears_witness:
  "((4096 :: addr) = NULL \<or> 4096 \<in> heap \<lparr>stdin = [], stdout = [], stderr = [], heap = {4096, 8192}\<rparr>)
   \<and> xfree 4096 \<lparr>stdin = [], stdout = [], stderr = [], heap = {4096, 8192}\<rparr>
     = Some (NULL, \<lparr>stdin = [], stdout = [], stderr = [], heap = {8192}\<rparr>)"
  using xfree_releases_and_clears
    [of 4096 "\<lparr>stdin = [], stdout = [], stderr = [], heap = {4096, 8192}\<rparr>"]
  by simp

subsection \<open>Levelled logger: the three levels without a question\<close>

text \<open>
  C7. At \<open>Info\<close> and at \<open>Warn_NoAck\<close> the call appends to standard output exactly
  \<open>" ** libutils: In <func> (<file>:<line>) <LEVEL>: "\<close>, the formatted message and a
  newline, with \<open>INFO\<close> and \<open>WARN\<close> for the level, touches nothing else and returns; the
  level word is the only difference between the two.
\<close>

theorem output_Info_Warn_NoAck:
  "output' vformat file func line Info fmt args w =
     Some (Return () (w\<lparr>stdout := stdout w @
        '' ** libutils: In '' @ func @ '' ('' @ file @ '':'' @ dec_int (sint line) @ '') INFO: ''
        @ vformat fmt args @ [LF]\<rparr>))
   \<and> output' vformat file func line Warn_NoAck fmt args w =
     Some (Return () (w\<lparr>stdout := stdout w @
        '' ** libutils: In '' @ func @ '' ('' @ file @ '':'' @ dec_int (sint line) @ '') WARN: ''
        @ vformat fmt args @ [LF]\<rparr>))"
  by (simp add: output'_def printf_def text_eval)

theorem output_Info_Warn_NoAck_witness:
  "output' (\<lambda>fmt args. ''x=1'') ''a.c'' ''main'' 10 Info ''%s=%d'' (''x'', 1 :: int)
     \<lparr>stdin = [], stdout = [], stderr = [], heap = {}\<rparr>
   = Some (Return () \<lparr>stdin = [],
        stdout = '' ** libutils: In main (a.c:10) INFO: x=1'' @ [LF], stderr = [], heap = {}\<rparr>)
   \<and> output' (\<lambda>fmt args. ''x=1'') ''a.c'' ''main'' 10 Warn_NoAck ''%s=%d'' (''x'', 1 :: int)
     \<lparr>stdin = [], stdout = [], stderr = [], heap = {}\<rparr>
   = Some (Return () \<lparr>stdin = [],
        stdout = '' ** libutils: In main (a.c:10) WARN: x=1'' @ [LF], stderr = [], heap = {}\<rparr>)"
  using output_Info_Warn_NoAck
    [of "\<lambda>fmt args. ''x=1''" "''a.c''" "''main''" 10 "''%s=%d''" "(''x'', 1 :: int)"
        "\<lparr>stdin = [], stdout = [], stderr = [], heap = {}\<rparr>"]
  by (simp add: dec_eval)

text \<open>
  C2. At \<open>Error\<close> the prefix with \<open>FAIL\<close> and the formatted message go to standard error
  and the process aborts, so the call never returns; but the newline that ends the line is
  written with \<open>printf\<close>, to standard output. Here for \<open>_error ("boom")\<close> in \<open>main\<close> at
  \<open>a.c:10\<close>, both streams empty before: standard error holds the line without its
  newline, standard output holds the newline.
\<close>

theorem output_Error_newline_on_stdout:
  "output' (\<lambda>fmt args. fmt) ''a.c'' ''main'' 10 Error ''boom'' ()
     \<lparr>stdin = [], stdout = [], stderr = [], heap = {}\<rparr>
   = Some (Abort \<lparr>stdin = [], stdout = [LF],
        stderr = '' ** libutils: In main (a.c:10) FAIL: boom'', heap = {}\<rparr>)"
  by (simp add: output_Error text_eval dec_eval)

subsection \<open>Levelled logger: the confirmation loop\<close>

text \<open>
  C3. When the character read in a round of the loop is \<open>N\<close>, \<open>n\<close> or carriage return,
  the process exits with status 255 in that round: the prompt has been printed, the one
  character has been consumed, nothing else is read or written, and the call does not
  return. For the first round of a \<open>Warn_Ack\<close> call this is the result of the call.
\<close>

theorem ack_loop_decline_exits_255:
  assumes "stdin w = c # cs" and "c = CHR ''N'' \<or> c = CHR ''n'' \<or> c = CR"
  shows "ack_loop w = Some (Exit 255 (w\<lparr>stdin := cs, stdout := stdout w @ '' -> Continue? [y/N]''\<rparr>))
         \<and> output' vformat file func line Warn_Ack fmt args w =
             Some (Exit 255 (w\<lparr>stdin := cs, stdout := stdout w @
               '' ** libutils: In '' @ func @ '' ('' @ file @ '':'' @ dec_int (sint line) @ '') WARN: ''
               @ vformat fmt args @ [LF] @ '' -> Continue? [y/N]''\<rparr>))"
proof
  show "ack_loop w = Some (Exit 255 (w\<lparr>stdin := cs, stdout := stdout w @ '' -> Continue? [y/N]''\<rparr>))"
    using ack_loop_decline [OF assms] by (simp add: text_eval)
next
  let ?w = "w\<lparr>stdout := stdout w @ prefix_text ''WARN'' func file line @ vformat fmt args @ [LF]\<rparr>"
  have "stdin ?w = c # cs"
    using assms(1) by simp
  from ack_loop_decline [OF this assms(2)]
  show "output' vformat file func line Warn_Ack fmt args w =
          Some (Exit 255 (w\<lparr>stdin := cs, stdout := stdout w @
            '' ** libutils: In '' @ func @ '' ('' @ file @ '':'' @ dec_int (sint line) @ '') WARN: ''
            @ vformat fmt args @ [LF] @ '' -> Continue? [y/N]''\<rparr>))"
    by (simp add: output_Warn_Ack text_eval)
qed

theorem ack_loop_decline_exits_255_witness:
  "stdin \<lparr>stdin = [CHR ''n'', LF], stdout = [], stderr = [], heap = {}\<rparr> = CHR ''n'' # [LF]
   \<and> (CHR ''n'' = CHR ''N'' \<or> CHR ''n'' = CHR ''n'' \<or> CHR ''n'' = CR)
   \<and> ack_loop \<lparr>stdin = [CHR ''n'', LF], stdout = [], stderr = [], heap = {}\<rparr>
     = Some (Exit 255 \<lparr>stdin = [LF], stdout = '' -> Continue? [y/N]'', stderr = [], heap = {}\<rparr>)
   \<and> output' (\<lambda>fmt args. fmt) ''a.c'' ''main'' 10 Warn_Ack ''sure?'' ()
       \<lparr>stdin = [CHR ''n'', LF], stdout = [], stderr = [], heap = {}\<rparr>
     = Some (Exit 255 \<lparr>stdin = [LF],
          stdout = '' ** libutils: In main (a.c:10) WARN: sure?'' @ [LF] @ '' -> Continue? [y/N]'',
          stderr = [], heap = {}\<rparr>)"
  using ack_loop_decline_exits_255
    [of "\<lparr>stdin = [CHR ''n'', LF], stdout = [], stderr = [], heap = {}\<rparr>" "CHR ''n''" "[LF]"
        "\<lambda>fmt args. fmt" "''a.c''" "''main''" 10 "''sure?''" "()"]
  by (simp add: dec_eval)

text \<open>
  C4. When the character read in a round of the loop is \<open>Y\<close> or \<open>y\<close>, the rest of
  standard input is read and thrown away up to end-of-stream and the call returns: the
  input is empty afterwards, only the prompt has been printed in that round, and the
  process goes on. For the first round of a \<open>Warn_Ack\<close> call this is the result of the
  call.
\<close>

theorem ack_loop_accept_drains_and_returns:
  assumes "stdin w = c # cs" and "c = CHR ''Y'' \<or> c = CHR ''y''"
  shows "ack_loop w = Some (Return () (w\<lparr>stdin := [], stdout := stdout w @ '' -> Continue? [y/N]''\<rparr>))
         \<and> output' vformat file func line Warn_Ack fmt args w =
             Some (Return () (w\<lparr>stdin := [], stdout := stdout w @
               '' ** libutils: In '' @ func @ '' ('' @ file @ '':'' @ dec_int (sint line) @ '') WARN: ''
               @ vformat fmt args @ [LF] @ '' -> Continue? [y/N]''\<rparr>))"
proof
  show "ack_loop w = Some (Return () (w\<lparr>stdin := [], stdout := stdout w @ '' -> Continue? [y/N]''\<rparr>))"
    using ack_loop_accept [OF assms] by (simp add: text_eval)
next
  let ?w = "w\<lparr>stdout := stdout w @ prefix_text ''WARN'' func file line @ vformat fmt args @ [LF]\<rparr>"
  have "stdin ?w = c # cs"
    using assms(1) by simp
  from ack_loop_accept [OF this assms(2)]
  show "output' vformat file func line Warn_Ack fmt args w =
          Some (Return () (w\<lparr>stdin := [], stdout := stdout w @
            '' ** libutils: In '' @ func @ '' ('' @ file @ '':'' @ dec_int (sint line) @ '') WARN: ''
            @ vformat fmt args @ [LF] @ '' -> Continue? [y/N]''\<rparr>))"
    by (simp add: output_Warn_Ack text_eval)
qed

theorem ack_loop_accept_drains_and_returns_witness:
  "stdin \<lparr>stdin = CHR ''y'' # LF # ''rest'', stdout = [], stderr = [], heap = {}\<rparr>
     = CHR ''y'' # LF # ''rest''
   \<and> (CHR ''y'' = CHR ''Y'' \<or> CHR ''y'' = CHR ''y'')
   \<and> ack_loop \<lparr>stdin = CHR ''y'' # LF # ''rest'', stdout = [], stderr = [], heap = {}\<rparr>
     = Some (Return () \<lparr>stdin = [], stdout = '' -> Continue? [y/N]'', stderr = [], heap = {}\<rparr>)
   \<and> output' (\<lambda>fmt args. fmt) ''a.c'' ''main'' 10 Warn_Ack ''sure?'' ()
       \<lparr>stdin = CHR ''y'' # LF # ''rest'', stdout = [], stderr = [], heap = {}\<rparr>
     = Some (Return () \<lparr>stdin = [],
          stdout = '' ** libutils: In main (a.c:10) WARN: sure?'' @ [LF] @ '' -> Continue? [y/N]'',
          stderr = [], heap = {}\<rparr>)"
  using ack_loop_accept_drains_and_returns
    [of "\<lparr>stdin = CHR ''y'' # LF # ''rest'', stdout = [], stderr = [], heap = {}\<rparr>"
        "CHR ''y''" "LF # ''rest''"
        "\<lambda>fmt args. fmt" "''a.c''" "''main''" 10 "''sure?''" "()"]
  by (simp add: dec_eval)

text \<open>
  C5. When the character read in a round is none of \<open>Y\<close>, \<open>y\<close>, \<open>N\<close>, \<open>n\<close> and carriage
  return, the round prints the instruction \<open>"    Please answer [y]es or [N]o."\<close> once
  after the prompt and asks for another round; that round starts on the input right
  behind the one character, so nothing of the line has been thrown away. On the input
  \<open>x\<close>, \<open>y\<close>, newline the instruction is printed exactly once, between two prompts, and
  the call returns with the input used up.
\<close>

theorem ack_loop_other_reprompts_once:
  assumes "stdin w = c # cs" and "c \<notin> {CHR ''Y'', CHR ''y'', CHR ''N'', CHR ''n'', CR}"
  shows "ack_body w =
           Repeat (w\<lparr>stdin := cs, stdout := stdout w @
             '' -> Continue? [y/N]'' @ ''    Please answer [y]es or [N]o.''\<rparr>)
         \<and> ack_loop w =
             ack_loop (w\<lparr>stdin := cs, stdout := stdout w @
               '' -> Continue? [y/N]'' @ ''    Please answer [y]es or [N]o.''\<rparr>)
         \<and> ack_loop (v\<lparr>stdin := [CHR ''x'', CHR ''y'', LF]\<rparr>) =
             Some (Return () (v\<lparr>stdin := [], stdout := stdout v @
               '' -> Continue? [y/N]'' @ ''    Please answer [y]es or [N]o.''
               @ '' -> Continue? [y/N]''\<rparr>))"
proof (intro conjI)
  show "ack_body w =
          Repeat (w\<lparr>stdin := cs, stdout := stdout w @
            '' -> Continue? [y/N]'' @ ''    Please answer [y]es or [N]o.''\<rparr>)"
    using assms by (simp add: ack_body_byte text_eval)
next
  show "ack_loop w =
          ack_loop (w\<lparr>stdin := cs, stdout := stdout w @
            '' -> Continue? [y/N]'' @ ''    Please answer [y]es or [N]o.''\<rparr>)"
    using ack_loop_other [OF assms] by (simp add: text_eval)
next
  let ?v1 = "v\<lparr>stdin := [CHR ''x'', CHR ''y'', LF]\<rparr>"
  let ?v2 = "?v1\<lparr>stdin := [CHR ''y'', LF], stdout := stdout ?v1 @ msg_prompt @ msg_reprompt\<rparr>"
  have "ack_loop ?v1 = ack_loop ?v2"
    by (rule ack_loop_other [of _ "CHR ''x''"]) simp_all
  also have "\<dots> = Some (Return () (?v2\<lparr>stdin := [], stdout := stdout ?v2 @ msg_prompt\<rparr>))"
    by (rule ack_loop_accept [of _ "CHR ''y''" "[LF]"]) simp_all
  finally show "ack_loop ?v1 =
      Some (Return () (v\<lparr>stdin := [], stdout := stdout v @
        '' -> Continue? [y/N]'' @ ''    Please answer [y]es or [N]o.''
        @ '' -> Continue? [y/N]''\<rparr>))"
    by (simp add: text_eval)
qed

theorem ack_loop_other_reprompts_once_witness:
  "stdin \<lparr>stdin = ''xyz'', stdout = [], stderr = [], heap = {}\<rparr> = CHR ''x'' # ''yz''
   \<and> CHR ''x'' \<notin> {CHR ''Y'', CHR ''y'', CHR ''N'', CHR ''n'', CR}
   \<and> ack_body \<lparr>stdin = ''xyz'', stdout = [], stderr = [], heap = {}\<rparr>
     = Repeat \<lparr>stdin = ''yz'',
         stdout = '' -> Continue? [y/N]    Please answer [y]es or [N]o.'', stderr = [], heap = {}\<rparr>
   \<and> ack_loop \<lparr>stdin = [CHR ''x'', CHR ''y'', LF], stdout = [], stderr = [], heap = {}\<rparr>
     = Some (Return () \<lparr>stdin = [],
         stdout = '' -> Continue? [y/N]    Please answer [y]es or [N]o. -> Continue? [y/N]'',
         stderr = [], heap = {}\<rparr>)"
  using ack_loop_other_reprompts_once
    [of "\<lparr>stdin = ''xyz'', stdout = [], stderr = [], heap = {}\<rparr>" "CHR ''x''" "''yz''"
        "\<lparr>stdin = [], stdout = [], stderr = [], heap = {}\<rparr>"]
  by simp

text \<open>
  C9. A line feed is not one of the answers of the \<open>switch\<close>: a round that reads it
  prints the instruction and asks for another round, it does not exit with status 255.
  After a bare line feed the process is still there to take an answer: line feed, then
  \<open>y\<close>, returns.
\<close>

theorem ack_loop_line_feed_reprompts:
  assumes "stdin w = LF # cs"
  shows "ack_body w =
           Repeat (w\<lparr>stdin := cs, stdout := stdout w @
             '' -> Continue? [y/N]'' @ ''    Please answer [y]es or [N]o.''\<rparr>)
         \<and> ack_loop w =
             ack_loop (w\<lparr>stdin := cs, stdout := stdout w @
               '' -> Continue? [y/N]'' @ ''    Please answer [y]es or [N]o.''\<rparr>)
         \<and> ack_loop (v\<lparr>stdin := [LF, CHR ''y'']\<rparr>) =
             Some (Return () (v\<lparr>stdin := [], stdout := stdout v @
               '' -> Continue? [y/N]'' @ ''    Please answer [y]es or [N]o.''
               @ '' -> Continue? [y/N]''\<rparr>))"
proof (intro conjI)
  show "ack_body w =
          Repeat (w\<lparr>stdin := cs, stdout := stdout w @
            '' -> Continue? [y/N]'' @ ''    Please answer [y]es or [N]o.''\<rparr>)"
    using assms by (simp add: ack_body_byte text_eval)
next
  have "LF \<notin> {CHR ''Y'', CHR ''y'', CHR ''N'', CHR ''n'', CR}"
    by simp
  from ack_loop_other [OF assms this]
  show "ack_loop w =
          ack_loop (w\<lparr>stdin := cs, stdout := stdout w @
            '' -> Continue? [y/N]'' @ ''    Please answer [y]es or [N]o.''\<rparr>)"
    by (simp add: text_eval)
next
  let ?v1 = "v\<lparr>stdin := [LF, CHR ''y'']\<rparr>"
  let ?v2 = "?v1\<lparr>stdin := [CHR ''y''], stdout := stdout ?v1 @ msg_prompt @ msg_reprompt\<rparr>"
  have "ack_loop ?v1 = ack_loop ?v2"
    by (rule ack_loop_other [of _ LF]) simp_all
  also have "\<dots> = Some (Return () (?v2\<lparr>stdin := [], stdout := stdout ?v2 @ msg_prompt\<rparr>))"
    by (rule ack_loop_accept [of _ "CHR ''y''" "[]"]) simp_all
  finally show "ack_loop ?v1 =
      Some (Return () (v\<lparr>stdin := [], stdout := stdout v @
        '' -> Continue? [y/N]'' @ ''    Please answer [y]es or [N]o.''
        @ '' -> Continue? [y/N]''\<rparr>))"
    by (simp add: text_eval)
qed

theorem ack_loop_line_feed_reprompts_witness:
  "stdin \<lparr>stdin = [LF, CHR ''n''], stdout = [], stderr = [], heap = {}\<rparr> = LF # ''n''
   \<and> ack_body \<lparr>stdin = [LF, CHR ''n''], stdout = [], stderr = [], heap = {}\<rparr>
     = Repeat \<lparr>stdin = ''n'',
         stdout = '' -> Continue? [y/N]    Please answer [y]es or [N]o.'', stderr = [], heap = {}\<rparr>"
  using ack_loop_line_feed_reprompts
    [of "\<lparr>stdin = [LF, CHR ''n''], stdout = [], stderr = [], heap = {}\<rparr>" "''n''"]
  by simp

text \<open>
  C10. At the end of standard input \<open>getc\<close> gives \<open>EOF\<close>, which is none of the answers:
  the round prints prompt and instruction and asks for another round, with the input
  still at its end. So the loop never ends, and neither does a \<open>Warn_Ack\<close> call made at
  the end of the input: there is no return and no exit.
\<close>

theorem ack_loop_at_eof_never_ends:
  assumes "stdin w = []"
  shows "ack_body w =
           Repeat (w\<lparr>stdout := stdout w @
             '' -> Continue? [y/N]'' @ ''    Please answer [y]es or [N]o.''\<rparr>)
         \<and> ack_loop w = None
         \<and> output' vformat file func line Warn_Ack fmt args w = None"
proof (intro conjI)
  show "ack_body w =
          Repeat (w\<lparr>stdout := stdout w @
            '' -> Continue? [y/N]'' @ ''    Please answer [y]es or [N]o.''\<rparr>)"
    using ack_body_eof [OF assms] by (simp add: text_eval)
next
  show "ack_loop w = None"
    using assms by (rule ack_loop_eof)
next
  show "output' vformat file func line Warn_Ack fmt args w = None"
    using assms by (simp add: output_Warn_Ack ack_loop_eof)
qed

theorem ack_loop_at_eof_never_ends_witness:
  "stdin \<lparr>stdin = [], stdout = [], stderr = [], heap = {}\<rparr> = []
   \<and> ack_body \<lparr>stdin = [], stdout = [], stderr = [], heap = {}\<rparr>
     = Repeat \<lparr>stdin = [],
         stdout = '' -> Continue? [y/N]    Please answer [y]es or [N]o.'', stderr = [], heap = {}\<rparr>
   \<and> ack_loop \<lparr>stdin = [], stdout = [], stderr = [], heap = {}\<rparr> = None
   \<and> output' (\<lambda>fmt args. fmt) ''a.c'' ''main'' 10 Warn_Ack ''sure?'' ()
       \<lparr>stdin = [], stdout = [], stderr = [], heap = {}\<rparr> = None"
  using ack_loop_at_eof_never_ends
    [of "\<lparr>stdin = [], stdout = [], stderr = [], heap = {}\<rparr>"
        "\<lambda>fmt args. fmt" "''a.c''" "''main''" 10 "''sure?''" "()"]
  by simp

end
